theory Spec2Isabelle
  imports Main "HOL-Library.Word"
begin

unbundle bit_operations_syntax

section \<open>Partition transforms of pyiceberg (\<open>pyiceberg/transforms.py\<close>)\<close>

text \<open>
  A shallow embedding of the module \<open>pyiceberg/transforms.py\<close>: the five transform
  classes, the validator \<open>Transform.validate\<close> that parses a specifier string, and the
  value-mapping functions that \<open>transform(source)\<close> returns.

  Python exceptions are values of the type \<open>error\<close>; a call that may raise returns
  \<open>error + 'a\<close>, with \<open>Inl\<close> for the exception. Python's \<open>int\<close> is \<open>int\<close>. A Python
  \<open>str\<close> is a list of code points; \<open>string\<close> gives the code points below 256.
\<close>

subsection \<open>Exceptions\<close>

datatype error =
    ParseError
  | ValueError
  | AttributeError
  | TypeError
  | ZeroDivisionError
  | StructError

subsection \<open>Strings and integers of the host language\<close>

text \<open>\<open>str.startswith\<close> and \<open>str.endswith\<close>.\<close>

definition startswith :: "string \<Rightarrow> string \<Rightarrow> bool" where
  "startswith v p = (take (length p) v = p)"

definition endswith :: "string \<Rightarrow> string \<Rightarrow> bool" where
  "endswith v p = (length p \<le> length v \<and> drop (length v - length p) v = p)"

text \<open>
  \<open>str(n)\<close> for an integer, as the f-strings \<open>f"bucket[{num_buckets}]"\<close> and
  \<open>f"truncate[{width}]"\<close> use it: decimal digits, most significant first, no leading
  zero, a minus sign for a negative number.
\<close>

definition digit_char :: "nat \<Rightarrow> char" where
  "digit_char d = char_of (48 + d)"

fun str_nat :: "nat \<Rightarrow> string" where
  "str_nat n = (if n < 10 then [digit_char n] else str_nat (n div 10) @ [digit_char (n mod 10)])"

declare str_nat.simps [simp del]

definition str_int :: "int \<Rightarrow> string" where
  "str_int i = (if i < 0 then CHR ''-'' # str_nat (nat (- i)) else str_nat (nat i))"

subsection \<open>The bracket parser\<close>

text \<open>
  The class \<open>ParseNumberFromBrackets\<close> of \<open>pyiceberg.utils.parsing\<close> is imported by the
  module, and its source is missing. The integer syntax it reads is an optional
  sign followed by one or more decimal digits.
\<close>

definition is_digit :: "char \<Rightarrow> bool" where
  "is_digit c = (48 \<le> (of_char c :: nat) \<and> (of_char c :: nat) \<le> 57)"

definition digit_val :: "char \<Rightarrow> nat" where
  "digit_val c = of_char c - 48"

definition nat_of_digits :: "string \<Rightarrow> nat option" where
  "nat_of_digits cs =
     (if cs \<noteq> [] \<and> list_all is_digit cs
      then Some (foldl (\<lambda>a c. 10 * a + digit_val c) 0 cs)
      else None)"

definition int_of_string :: "string \<Rightarrow> int option" where
  "int_of_string cs =
     (case cs of
        [] \<Rightarrow> None
      | c # ds \<Rightarrow>
          if c = CHR ''-'' then map_option (\<lambda>n. - int n) (nat_of_digits ds)
          else if c = CHR ''+'' then map_option int (nat_of_digits ds)
          else map_option int (nat_of_digits cs))"

definition ParseNumberFromBrackets_match :: "string \<Rightarrow> string \<Rightarrow> error + int" where
  \<comment> \<open>Modelled from the spec: \<open>ParseNumberFromBrackets(prefix).match(str_repr)\<close>, whose
      source is missing. Section 4.1: for the prefix followed by an opening bracket and the
      suffix \<open>]\<close>, parse the enclosed substring as a positive integer; a non-integer or a
      number \<open>\<le> 0\<close> is a ParseError. A string of another form has no number to give and
      is a ParseError as well.\<close>
  "ParseNumberFromBrackets_match prefix str_repr =
     (let opening = prefix @ ''['';
          rest = drop (length opening) str_repr
      in if startswith str_repr opening \<and> endswith rest '']'' then
           (case int_of_string (butlast rest) of
              None \<Rightarrow> Inl ParseError
            | Some n \<Rightarrow> if 0 < n then Inr n else Inl ParseError)
         else Inl ParseError)"

definition IDENTITY :: string where "IDENTITY = ''identity''"
definition VOID :: string where "VOID = ''void''"
definition BUCKET :: string where "BUCKET = ''bucket''"
definition TRUNCATE :: string where "TRUNCATE = ''truncate''"

definition BUCKET_PARSER :: "string \<Rightarrow> error + int" where
  "BUCKET_PARSER = ParseNumberFromBrackets_match BUCKET"

definition TRUNCATE_PARSER :: "string \<Rightarrow> error + int" where
  "TRUNCATE_PARSER = ParseNumberFromBrackets_match TRUNCATE"

subsection \<open>Source types\<close>

datatype IcebergType =
  \<comment> \<open>Modelled from the spec: the classes of \<open>pyiceberg.types\<close>, whose source is missing.
      The module imports the eleven kinds that section 4.3 lists; boolean, float, double and
      the nested kinds complete the type system of the table format. \<open>type(source)\<close> is the
      constructor.\<close>
    BooleanType
  | IntegerType
  | LongType
  | FloatType
  | DoubleType
  | DecimalType nat nat
  | DateType
  | TimeType
  | TimestampType
  | TimestamptzType
  | StringType
  | UUIDType
  | FixedType nat
  | BinaryType
  | ListType IcebergType
  | MapType IcebergType IcebergType
  | StructType "IcebergType list"

fun is_primitive :: "IcebergType \<Rightarrow> bool" where
  \<comment> \<open>Modelled from the spec: the property \<open>is_primitive\<close> of \<open>pyiceberg.types\<close>.\<close>
  "is_primitive (ListType _) = False"
| "is_primitive (MapType _ _) = False"
| "is_primitive (StructType _) = False"
| "is_primitive _ = True"

definition IntegerType_max :: int where
  \<comment> \<open>Modelled from the spec: the constant \<open>IntegerType.max\<close>, \<open>0x7FFFFFFF\<close> in section 4.3.\<close>
  "IntegerType_max = 2147483647"

subsection \<open>The transform classes\<close>

text \<open>
  One constructor per concrete class. \<open>BucketTransform\<close> holds \<open>_num_buckets\<close>,
  \<open>TruncateTransform\<close> holds \<open>_width\<close> and the private attribute \<open>_source_type\<close>, which
  its \<open>satisfies_order_of\<close> reads (\<open>None\<close>: never assigned), \<open>UnknownTransform\<close> holds
  \<open>_transform\<close>. The other classes declare \<open>_source_type\<close> too and never read it.
\<close>

datatype Transform =
    IdentityTransform
  | VoidTransform
  | BucketTransform (num_buckets: int)
  | TruncateTransform (width: int) (source_type: "IcebergType option")
  | UnknownTransform string

text \<open>
  The constructors \<open>__init__\<close>. Neither \<open>BucketTransform.__init__\<close> nor
  \<open>TruncateTransform.__init__\<close> tests its argument or assigns \<open>_source_type\<close>.
\<close>

definition BucketTransform_init :: "int \<Rightarrow> Transform" where
  "BucketTransform_init n = BucketTransform n"

definition TruncateTransform_init :: "int \<Rightarrow> Transform" where
  "TruncateTransform_init w = TruncateTransform w None"

definition UnknownTransform_init :: "string \<Rightarrow> Transform" where
  "UnknownTransform_init t = UnknownTransform t"

text \<open>The field \<open>__root__\<close>, set by the constructors or by the field's default.\<close>

fun root :: "Transform \<Rightarrow> string" where
  "root IdentityTransform = ''identity''"
| "root VoidTransform = ''void''"
| "root (BucketTransform n) = ''bucket['' @ str_int n @ '']''"
| "root (TruncateTransform w _) = ''truncate['' @ str_int w @ '']''"
| "root (UnknownTransform _) = ''unknown''"

text \<open>\<open>__str__\<close>: the root, and the literal \<open>identity\<close> in \<open>IdentityTransform\<close>.\<close>

fun str_Transform :: "Transform \<Rightarrow> string" where
  "str_Transform IdentityTransform = ''identity''"
| "str_Transform t = root t"

text \<open>\<open>__eq__\<close> between two transforms.\<close>

definition eq_Transform :: "Transform \<Rightarrow> Transform \<Rightarrow> bool" where
  "eq_Transform self other = (root self = root other)"

subsection \<open>Parsing a specifier: \<open>Transform.validate\<close>\<close>

text \<open>
  \<open>validate\<close> on a \<open>str\<close>. (Any other object is returned as it is.) The branch for
  \<open>TRUNCATE\<close> calls \<open>BUCKET_PARSER\<close>, as line 94 of the source does.
\<close>

definition validate :: "string \<Rightarrow> error + Transform" where
  "validate v =
     (if v = IDENTITY then Inr IdentityTransform
      else if v = VOID then Inr VoidTransform
      else if startswith v BUCKET then
        (case BUCKET_PARSER v of
           Inl e \<Rightarrow> Inl e
         | Inr n \<Rightarrow> Inr (BucketTransform_init n))
      else if startswith v TRUNCATE then
        (case BUCKET_PARSER v of
           Inl e \<Rightarrow> Inl e
         | Inr n \<Rightarrow> Inr (TruncateTransform_init n))
      else Inr (UnknownTransform_init v))"

subsection \<open>Values\<close>

text \<open>
  The values a mapping function is applied to: \<open>None\<close>, an \<open>int\<close>, a \<open>str\<close>, a
  \<open>bytes\<close> object and a \<open>UUID\<close> (its 128-bit \<open>int\<close>). Python's \<open>Decimal\<close>, whose
  arithmetic depends on the precision of a context, is not among them.
\<close>

datatype val =
    NoneV
  | IntV int
  | StrV string
  | BytesV "8 word list"
  | UUIDV "128 word"

text \<open>The truth value of \<open>v\<close> in \<open>... if v else None\<close>.\<close>

fun truthy :: "val \<Rightarrow> bool" where
  "truthy NoneV = False"
| "truthy (IntV i) = (i \<noteq> 0)"
| "truthy (StrV s) = (s \<noteq> [])"
| "truthy (BytesV b) = (b \<noteq> [])"
| "truthy (UUIDV _) = True"

text \<open>The slice \<open>v[0:stop]\<close>: a negative \<open>stop\<close> counts from the end.\<close>

definition slice_to :: "int \<Rightarrow> 'a list \<Rightarrow> 'a list" where
  "slice_to stop xs =
     (if 0 \<le> stop then take (nat stop) xs else take (nat (int (length xs) + stop)) xs)"

subsection \<open>Byte packing and the hash\<close>

text \<open>
  \<open>struct.pack("<q", v)\<close>: the eight bytes of a signed 64-bit integer, least significant
  first; \<open>struct.error\<close> for an integer out of range and for any other object.
  \<open>struct.pack(">QQ", a, b)\<close>, on two integers that the source has masked to 64 bits:
  sixteen bytes, most significant first.
\<close>

definition le_bytes :: "nat \<Rightarrow> int \<Rightarrow> 8 word list" where
  "le_bytes n i = map (\<lambda>k. of_int (i div 2 ^ (8 * k))) [0..<n]"

definition pack_q :: "val \<Rightarrow> error + 8 word list" where
  "pack_q v =
     (case v of
        IntV i \<Rightarrow> if - (2 ^ 63) \<le> i \<and> i < 2 ^ 63 then Inr (le_bytes 8 i) else Inl StructError
      | _ \<Rightarrow> Inl StructError)"

definition pack_QQ :: "int \<Rightarrow> int \<Rightarrow> 8 word list" where
  "pack_QQ a b = rev (le_bytes 8 a) @ rev (le_bytes 8 b)"

text \<open>
  \<open>mmh3.hash\<close> of the library \<open>mmh3\<close>: MurmurHash3 for 32-bit platforms with seed 0, read
  as a signed 32-bit integer. A \<open>str\<close> is hashed through its UTF-8 encoding.
\<close>

definition rotl32 :: "32 word \<Rightarrow> nat \<Rightarrow> 32 word" where
  "rotl32 x r = push_bit r x OR drop_bit (32 - r) x"

definition mix_k1 :: "32 word \<Rightarrow> 32 word" where
  "mix_k1 k = rotl32 (k * 0xcc9e2d51) 15 * 0x1b873593"

definition mix_h1 :: "32 word \<Rightarrow> 32 word \<Rightarrow> 32 word" where
  "mix_h1 h k = rotl32 (h XOR mix_k1 k) 13 * 5 + 0xe6546b64"

definition le_word32 :: "8 word list \<Rightarrow> 32 word" where
  "le_word32 bs = foldr (\<lambda>b acc. ucast b OR push_bit 8 acc) bs 0"

fun murmur_blocks :: "32 word \<Rightarrow> 8 word list \<Rightarrow> 32 word" where
  "murmur_blocks h (a # b # c # d # rest) = murmur_blocks (mix_h1 h (le_word32 [a, b, c, d])) rest"
| "murmur_blocks h [] = h"
| "murmur_blocks h tail = h XOR mix_k1 (le_word32 tail)"

definition fmix32 :: "32 word \<Rightarrow> 32 word" where
  "fmix32 h =
     (let h1 = h XOR drop_bit 16 h;
          h2 = h1 * 0x85ebca6b;
          h3 = h2 XOR drop_bit 13 h2;
          h4 = h3 * 0xc2b2ae35
      in h4 XOR drop_bit 16 h4)"

definition mmh3_hash :: "8 word list \<Rightarrow> int" where
  "mmh3_hash bs = sint (fmix32 (murmur_blocks 0 bs XOR of_nat (length bs)))"

definition utf8_encode :: "string \<Rightarrow> 8 word list" where
  "utf8_encode s =
     concat (map (\<lambda>c. let n = (of_char c :: nat)
                      in if n < 128 then [of_nat n]
                         else [of_nat (192 + n div 64), of_nat (128 + n mod 64)]) s)"

definition decimal_to_bytes :: "val \<Rightarrow> error + 8 word list" where
  \<comment> \<open>Modelled from the spec: \<open>decimal_to_bytes\<close> of \<open>pyiceberg.utils.decimal\<close>, whose
      source is missing. Section 4.3: the minimal two's-complement big-endian bytes of the
      unscaled value of a decimal. No value of this model is a decimal, and the helper has
      no unscaled value to read from any other object.\<close>
  "decimal_to_bytes v = Inl TypeError"

definition truncate_decimal :: "val \<Rightarrow> int \<Rightarrow> error + val" where
  \<comment> \<open>Modelled from the spec: \<open>truncate_decimal\<close> of \<open>pyiceberg.utils.decimal\<close>, whose
      source is missing. Section 4.4: the unscaled value of a decimal truncated to the
      nearest lower multiple of the width, at the same scale. No value of this model is a
      decimal, and the helper has no unscaled value to read from any other object.\<close>
  "truncate_decimal v w = Inl TypeError"

subsection \<open>\<open>BucketTransform\<close>\<close>

fun BucketTransform_can_transform :: "IcebergType \<Rightarrow> bool" where
  "BucketTransform_can_transform IntegerType = True"
| "BucketTransform_can_transform DateType = True"
| "BucketTransform_can_transform LongType = True"
| "BucketTransform_can_transform TimeType = True"
| "BucketTransform_can_transform TimestampType = True"
| "BucketTransform_can_transform TimestamptzType = True"
| "BucketTransform_can_transform (DecimalType _ _) = True"
| "BucketTransform_can_transform StringType = True"
| "BucketTransform_can_transform (FixedType _) = True"
| "BucketTransform_can_transform BinaryType = True"
| "BucketTransform_can_transform UUIDType = True"
| "BucketTransform_can_transform _ = False"

text \<open>The four local functions \<open>hash_func\<close> of \<open>BucketTransform.transform\<close>.\<close>

definition hash_func_int :: "val \<Rightarrow> error + int" where
  "hash_func_int v = (case pack_q v of Inl e \<Rightarrow> Inl e | Inr bs \<Rightarrow> Inr (mmh3_hash bs))"

definition hash_func_decimal :: "val \<Rightarrow> error + int" where
  "hash_func_decimal v =
     (case decimal_to_bytes v of Inl e \<Rightarrow> Inl e | Inr bs \<Rightarrow> Inr (mmh3_hash bs))"

definition hash_func_bytes :: "val \<Rightarrow> error + int" where
  "hash_func_bytes v =
     (case v of
        StrV s \<Rightarrow> Inr (mmh3_hash (utf8_encode s))
      | BytesV b \<Rightarrow> Inr (mmh3_hash b)
      | _ \<Rightarrow> Inl TypeError)"

definition hash_func_uuid :: "val \<Rightarrow> error + int" where
  "hash_func_uuid v =
     (case v of
        UUIDV u \<Rightarrow>
          Inr (mmh3_hash (pack_QQ (drop_bit 64 (uint u) AND 0xFFFFFFFFFFFFFFFF)
                                  (uint u AND 0xFFFFFFFFFFFFFFFF)))
      | _ \<Rightarrow> Inl AttributeError)"

text \<open>The choice of \<open>hash_func\<close> by \<open>type(source)\<close>; \<open>None\<close> is the final \<open>else\<close>.\<close>

fun BucketTransform_hash_func :: "IcebergType \<Rightarrow> (val \<Rightarrow> error + int) option" where
  "BucketTransform_hash_func IntegerType = Some hash_func_int"
| "BucketTransform_hash_func LongType = Some hash_func_int"
| "BucketTransform_hash_func DateType = Some hash_func_int"
| "BucketTransform_hash_func TimeType = Some hash_func_int"
| "BucketTransform_hash_func TimestampType = Some hash_func_int"
| "BucketTransform_hash_func TimestamptzType = Some hash_func_int"
| "BucketTransform_hash_func (DecimalType _ _) = Some hash_func_decimal"
| "BucketTransform_hash_func StringType = Some hash_func_bytes"
| "BucketTransform_hash_func (FixedType _) = Some hash_func_bytes"
| "BucketTransform_hash_func BinaryType = Some hash_func_bytes"
| "BucketTransform_hash_func UUIDType = Some hash_func_uuid"
| "BucketTransform_hash_func _ = None"

text \<open>
  The function returned when \<open>bucket\<close> is true:
  \<open>lambda v: (hash_func(v) & IntegerType.max) % self._num_buckets if v else None\<close>.
\<close>

definition bucket_lambda :: "int \<Rightarrow> (val \<Rightarrow> error + int) \<Rightarrow> val \<Rightarrow> error + val" where
  "bucket_lambda n hash_func v =
     (if truthy v then
        (case hash_func v of
           Inl e \<Rightarrow> Inl e
         | Inr h \<Rightarrow>
             if n = 0 then Inl ZeroDivisionError
             else Inr (IntV ((h AND IntegerType_max) mod n)))
      else Inr NoneV)"

definition BucketTransform_transform ::
    "int \<Rightarrow> IcebergType \<Rightarrow> bool \<Rightarrow> error + (val \<Rightarrow> error + val)" where
  "BucketTransform_transform n source bucket =
     (case BucketTransform_hash_func source of
        None \<Rightarrow> Inl ValueError
      | Some hash_func \<Rightarrow>
          if bucket then Inr (bucket_lambda n hash_func)
          else Inr (\<lambda>v. case hash_func v of Inl e \<Rightarrow> Inl e | Inr h \<Rightarrow> Inr (IntV h)))"

subsection \<open>\<open>TruncateTransform\<close>\<close>

fun TruncateTransform_can_transform :: "IcebergType \<Rightarrow> bool" where
  "TruncateTransform_can_transform IntegerType = True"
| "TruncateTransform_can_transform LongType = True"
| "TruncateTransform_can_transform StringType = True"
| "TruncateTransform_can_transform BinaryType = True"
| "TruncateTransform_can_transform (DecimalType _ _) = True"
| "TruncateTransform_can_transform _ = False"

text \<open>
  The three local functions \<open>truncate_func\<close>. \<open>v - v % self._width\<close> is defined on an
  \<open>int\<close>, where \<open>%\<close> takes the sign of the divisor as \<open>mod\<close> does and raises for the
  divisor 0; on a \<open>str\<close>, a \<open>bytes\<close> object or a \<open>UUID\<close> the expression raises (the
  model does not tell the exception of a malformed format string from \<open>TypeError\<close>).
  \<open>v[0 : min(self._width, len(v))]\<close> is defined on \<open>str\<close> and \<open>bytes\<close>.
\<close>

definition truncate_func_int :: "int \<Rightarrow> val \<Rightarrow> error + val" where
  "truncate_func_int w v =
     (case v of
        IntV i \<Rightarrow> if w = 0 then Inl ZeroDivisionError else Inr (IntV (i - i mod w))
      | _ \<Rightarrow> Inl TypeError)"

definition truncate_func_seq :: "int \<Rightarrow> val \<Rightarrow> error + val" where
  "truncate_func_seq w v =
     (case v of
        StrV s \<Rightarrow> Inr (StrV (slice_to (min w (int (length s))) s))
      | BytesV b \<Rightarrow> Inr (BytesV (slice_to (min w (int (length b))) b))
      | _ \<Rightarrow> Inl TypeError)"

definition truncate_func_decimal :: "int \<Rightarrow> val \<Rightarrow> error + val" where
  "truncate_func_decimal w v = truncate_decimal v w"

fun TruncateTransform_truncate_func :: "int \<Rightarrow> IcebergType \<Rightarrow> (val \<Rightarrow> error + val) option" where
  "TruncateTransform_truncate_func w IntegerType = Some (truncate_func_int w)"
| "TruncateTransform_truncate_func w LongType = Some (truncate_func_int w)"
| "TruncateTransform_truncate_func w StringType = Some (truncate_func_seq w)"
| "TruncateTransform_truncate_func w BinaryType = Some (truncate_func_seq w)"
| "TruncateTransform_truncate_func w (DecimalType _ _) = Some (truncate_func_decimal w)"
| "TruncateTransform_truncate_func w _ = None"

text \<open>The function returned: \<open>lambda v: truncate_func(v) if v else None\<close>.\<close>

definition truncate_lambda :: "(val \<Rightarrow> error + val) \<Rightarrow> val \<Rightarrow> error + val" where
  "truncate_lambda truncate_func v = (if truthy v then truncate_func v else Inr NoneV)"

definition TruncateTransform_transform :: "int \<Rightarrow> IcebergType \<Rightarrow> error + (val \<Rightarrow> error + val)" where
  "TruncateTransform_transform w source =
     (case TruncateTransform_truncate_func w source of
        None \<Rightarrow> Inl ValueError
      | Some truncate_func \<Rightarrow> Inr (truncate_lambda truncate_func))"

text \<open>
  \<open>TruncateTransform.satisfies_order_of\<close>, for \<open>self\<close> of width \<open>w\<close> and private attribute
  \<open>st\<close>. Reading a private attribute that was never assigned raises \<open>AttributeError\<close>;
  \<open>and\<close> evaluates its operands from the left and stops at the first false one.
\<close>

definition TruncateTransform_satisfies_order_of ::
    "int \<Rightarrow> IcebergType option \<Rightarrow> Transform \<Rightarrow> error + bool" where
  "TruncateTransform_satisfies_order_of w st other =
     (if eq_Transform (TruncateTransform w st) other then Inr True
      else
        (case st of
           None \<Rightarrow> Inl AttributeError
         | Some self_type \<Rightarrow>
             if self_type = StringType then
               (case other of
                  TruncateTransform other_width other_st \<Rightarrow>
                    (case other_st of
                       None \<Rightarrow> Inl AttributeError
                     | Some other_type \<Rightarrow>
                         if other_type = StringType then Inr (other_width \<le> w) else Inr False)
                | _ \<Rightarrow> Inr False)
             else Inr False))"

subsection \<open>Dispatch on the class of \<open>self\<close>\<close>

fun can_transform :: "Transform \<Rightarrow> IcebergType \<Rightarrow> bool" where
  "can_transform IdentityTransform source = is_primitive source"
| "can_transform VoidTransform source = True"
| "can_transform (BucketTransform n) source = BucketTransform_can_transform source"
| "can_transform (TruncateTransform w st) source = TruncateTransform_can_transform source"
| "can_transform (UnknownTransform t) source = False"

fun transform :: "Transform \<Rightarrow> IcebergType \<Rightarrow> error + (val \<Rightarrow> error + val)" where
  "transform IdentityTransform source = Inr (\<lambda>v. Inr v)"
| "transform VoidTransform source = Inr (\<lambda>v. Inr NoneV)"
| "transform (BucketTransform n) source = BucketTransform_transform n source True"
| "transform (TruncateTransform w st) source = TruncateTransform_transform w source"
| "transform (UnknownTransform t) source = Inl AttributeError"

fun result_type :: "Transform \<Rightarrow> IcebergType \<Rightarrow> IcebergType" where
  "result_type IdentityTransform source = source"
| "result_type VoidTransform source = source"
| "result_type (BucketTransform n) source = IntegerType"
| "result_type (TruncateTransform w st) source = source"
| "result_type (UnknownTransform t) source = StringType"

fun preserves_order :: "Transform \<Rightarrow> bool" where
  "preserves_order IdentityTransform = True"
| "preserves_order (TruncateTransform w st) = True"
| "preserves_order _ = False"

fun satisfies_order_of :: "Transform \<Rightarrow> Transform \<Rightarrow> error + bool" where
  "satisfies_order_of IdentityTransform other = Inr (preserves_order other)"
| "satisfies_order_of (TruncateTransform w st) other = TruncateTransform_satisfies_order_of w st other"
| "satisfies_order_of self other = Inr (eq_Transform self other)"

section \<open>Properties\<close>

subsection \<open>Decimal numerals\<close>

lemma digit_char_is_digit: "d < 10 \<Longrightarrow> is_digit (digit_char d)"
  by (simp add: is_digit_def digit_char_def)

lemma digit_val_digit_char: "d < 10 \<Longrightarrow> digit_val (digit_char d) = d"
  by (simp add: digit_val_def digit_char_def)

lemma str_nat_digits: "list_all is_digit (str_nat n)"
proof (induction n rule: str_nat.induct)
  case (1 n)
  show ?case
  proof (cases "n < 10")
    case True
    then show ?thesis by (simp add: str_nat.simps [of n] digit_char_is_digit)
  next
    case False
    with 1 show ?thesis by (simp add: str_nat.simps [of n] digit_char_is_digit)
  qed
qed

lemma str_nat_nonempty: "str_nat n \<noteq> []"
  by (simp add: str_nat.simps [of n])

lemma str_nat_value: "foldl (\<lambda>a c. 10 * a + digit_val c) 0 (str_nat n) = n"
proof (induction n rule: str_nat.induct)
  case (1 n)
  show ?case
  proof (cases "n < 10")
    case True
    then show ?thesis by (simp add: str_nat.simps [of n] digit_val_digit_char)
  next
    case False
    with 1 show ?thesis by (simp add: str_nat.simps [of n] digit_val_digit_char)
  qed
qed

lemma nat_of_digits_str_nat: "nat_of_digits (str_nat n) = Some n"
  by (simp add: nat_of_digits_def str_nat_digits str_nat_nonempty str_nat_value)

lemma is_digit_not_sign: "is_digit c \<Longrightarrow> c \<noteq> CHR ''-'' \<and> c \<noteq> CHR ''+''"
  by (auto simp: is_digit_def)

text \<open>Reading back what \<open>str\<close> printed, for a positive integer.\<close>

lemma int_of_string_str_int:
  assumes "0 < n"
  shows "int_of_string (str_int n) = Some n"
proof -
  obtain c ds where cs: "str_nat (nat n) = c # ds"
    using str_nat_nonempty [of "nat n"] by (cases "str_nat (nat n)") auto
  have "is_digit c"
    using str_nat_digits [of "nat n"] cs by simp
  then have "c \<noteq> CHR ''-''" "c \<noteq> CHR ''+''"
    using is_digit_not_sign by blast+
  moreover have "nat_of_digits (c # ds) = Some (nat n)"
    using nat_of_digits_str_nat [of "nat n"] cs by simp
  ultimately show ?thesis
    using assms cs by (simp add: int_of_string_def str_int_def)
qed

subsection \<open>The branches of \<open>validate\<close>\<close>

lemma startswith_append: "startswith v p \<Longrightarrow> \<exists>r. v = p @ r"
  unfolding startswith_def by (metis append_take_drop_id)

lemma match_bracketed:
  "ParseNumberFromBrackets_match prefix (prefix @ ''['' @ p @ '']'') =
     (case int_of_string p of
        None \<Rightarrow> Inl ParseError
      | Some n \<Rightarrow> if 0 < n then Inr n else Inl ParseError)"
  by (simp add: ParseNumberFromBrackets_match_def startswith_def endswith_def)

lemma validate_bucket_bracketed:
  "validate (''bucket['' @ p @ '']'') =
     (case int_of_string p of
        None \<Rightarrow> Inl ParseError
      | Some n \<Rightarrow> if 0 < n then Inr (BucketTransform n) else Inl ParseError)"
proof -
  have "BUCKET_PARSER (''bucket['' @ p @ '']'') =
     (case int_of_string p of
        None \<Rightarrow> Inl ParseError
      | Some n \<Rightarrow> if 0 < n then Inr n else Inl ParseError)"
    using match_bracketed [of "''bucket''" p] by (simp add: BUCKET_PARSER_def BUCKET_def)
  then show ?thesis
    by (simp add: validate_def IDENTITY_def VOID_def BUCKET_def startswith_def
        BucketTransform_init_def split: option.splits)
qed

text \<open>
  A specifier that starts with \<open>truncate\<close> reaches the parser built for the prefix
  \<open>bucket\<close>, which finds no \<open>bucket[\<close> at its start.
\<close>

lemma validate_truncate_prefix:
  assumes "startswith v TRUNCATE"
  shows "validate v = Inl ParseError"
proof -
  obtain r where v: "v = ''truncate'' @ r"
    using startswith_append [OF assms] by (auto simp: TRUNCATE_def)
  show ?thesis
    unfolding v
    by (simp add: validate_def IDENTITY_def VOID_def BUCKET_def TRUNCATE_def startswith_def
        BUCKET_PARSER_def ParseNumberFromBrackets_match_def)
qed

lemma validate_positive:
  assumes "validate s = Inr t"
  shows "case t of BucketTransform n \<Rightarrow> 0 < n | TruncateTransform w st \<Rightarrow> 0 < w | _ \<Rightarrow> True"
  using assms
  by (auto simp: validate_def BUCKET_PARSER_def ParseNumberFromBrackets_match_def Let_def
      BucketTransform_init_def TruncateTransform_init_def UnknownTransform_init_def
      split: if_splits option.splits sum.splits)

text \<open>
  The round trip on the three branches that reach their constructor: \<open>identity\<close>,
  \<open>void\<close> and \<open>bucket[N]\<close> for the decimal numeral of a positive \<open>N\<close>.
\<close>

lemma roundtrip_identity_void:
  "map_sum id str_Transform (validate ''identity'') = Inr ''identity''"
  "map_sum id str_Transform (validate ''void'') = Inr ''void''"
  by (simp_all add: validate_def IDENTITY_def VOID_def)

lemma roundtrip_bucket:
  assumes "0 < n"
  shows "validate (''bucket['' @ str_int n @ '']'') = Inr (BucketTransform n)"
    and "map_sum id str_Transform (validate (''bucket['' @ str_int n @ '']''))
           = Inr (''bucket['' @ str_int n @ '']'')"
  using assms validate_bucket_bracketed [of "str_int n"]
  by (simp_all add: int_of_string_str_int)

subsection \<open>Parsing\<close>

text \<open>
  Claim C1: for every positive integer \<open>W\<close>, parsing \<open>truncate[W]\<close> succeeds and yields
  a Truncate transform of width \<open>W\<close>. The source does otherwise: the \<open>truncate\<close> branch of
  \<open>validate\<close> hands the specifier to \<open>BUCKET_PARSER\<close> (\<open>TRUNCATE_PARSER\<close> is defined and
  never used), so parsing \<open>truncate[5]\<close> raises instead of returning
  \<open>TruncateTransform 5\<close>.
\<close>

theorem validate_truncate_5_fails:
  "validate ''truncate[5]'' = Inl ParseError
   \<and> TRUNCATE_PARSER ''truncate[5]'' = Inr 5"
  by (simp add: validate_def IDENTITY_def VOID_def BUCKET_def TRUNCATE_def startswith_def
      endswith_def BUCKET_PARSER_def TRUNCATE_PARSER_def ParseNumberFromBrackets_match_def
      int_of_string_def nat_of_digits_def is_digit_def digit_val_def)

text \<open>
  Claim C2: for every specifier \<open>s\<close> matched by the parse rules 1 to 4, the canonical
  string of the parsed transform is \<open>s\<close>. The round trip holds for \<open>identity\<close>, \<open>void\<close>
  and \<open>bucket[N]\<close> (\<open>roundtrip_identity_void\<close>, \<open>roundtrip_bucket\<close>); for \<open>truncate[8]\<close>
  the source raises and there is no transform to print.
\<close>

theorem roundtrip_truncate_8_fails:
  "map_sum id str_Transform (validate ''truncate[8]'') = Inl ParseError
   \<and> str_Transform (TruncateTransform_init 8) = ''truncate[8]''"
proof -
  have "startswith ''truncate[8]'' TRUNCATE"
    by (simp add: startswith_def TRUNCATE_def)
  then have "validate ''truncate[8]'' = Inl ParseError"
    by (rule validate_truncate_prefix)
  moreover have "str_int 8 = ''8''"
    by code_simp
  ultimately show ?thesis
    by (simp add: TruncateTransform_init_def)
qed

text \<open>
  Claim C3: parsing a bucket or truncate specifier whose bracketed parameter \<open>p\<close> is not
  an integer or is not strictly positive fails with a ParseError, and parsing never yields a
  Bucket or Truncate transform with a parameter that is not positive. The test for the
  integer and its sign is the bracket parser's, whose source is missing.
\<close>

theorem validate_rejects_bad_parameter:
  "((\<forall>n. int_of_string p = Some n \<longrightarrow> n \<le> 0) \<longrightarrow>
      validate (''bucket['' @ p @ '']'') = Inl ParseError
      \<and> validate (''truncate['' @ p @ '']'') = Inl ParseError)
   \<and> (validate s = Inr t \<longrightarrow>
        (case t of BucketTransform n \<Rightarrow> 0 < n | TruncateTransform w st \<Rightarrow> 0 < w | _ \<Rightarrow> True))"
proof -
  have "validate (''truncate['' @ p @ '']'') = Inl ParseError"
    by (rule validate_truncate_prefix) (simp add: startswith_def TRUNCATE_def)
  moreover have "validate (''bucket['' @ p @ '']'') = Inl ParseError"
    if "\<forall>n. int_of_string p = Some n \<longrightarrow> n \<le> 0"
    using that validate_bucket_bracketed [of p] by (auto split: option.splits)
  ultimately show ?thesis
    using validate_positive by blast
qed

theorem validate_rejects_bad_parameter_witness:
  "int_of_string ''abc'' = None
   \<and> int_of_string ''0'' = Some 0
   \<and> int_of_string ''-3'' = Some (- 3)
   \<and> validate ''bucket[abc]'' = Inl ParseError
   \<and> validate ''bucket[0]'' = Inl ParseError
   \<and> validate ''bucket[-3]'' = Inl ParseError
   \<and> validate ''truncate[0]'' = Inl ParseError
   \<and> validate ''bucket[16]'' = Inr (BucketTransform 16) \<and> (0::int) < 16"
proof -
  have a: "int_of_string ''abc'' = None"
    by (simp add: int_of_string_def nat_of_digits_def is_digit_def)
  have b: "int_of_string ''0'' = Some 0"
    by (simp add: int_of_string_def nat_of_digits_def is_digit_def digit_val_def)
  have c: "int_of_string ''-3'' = Some (- 3)"
    by (simp add: int_of_string_def nat_of_digits_def is_digit_def digit_val_def)
  have d: "validate ''bucket[16]'' = Inr (BucketTransform 16)"
    by (simp add: validate_def IDENTITY_def VOID_def BUCKET_def startswith_def endswith_def
        BUCKET_PARSER_def ParseNumberFromBrackets_match_def int_of_string_def nat_of_digits_def
        is_digit_def digit_val_def BucketTransform_init_def)
  show ?thesis
    using a b c d
      validate_rejects_bad_parameter [of "''abc''" "''bucket[16]''" "BucketTransform 16"]
      validate_rejects_bad_parameter [of "''0''" "''bucket[16]''" "BucketTransform 16"]
      validate_rejects_bad_parameter [of "''-3''" "''bucket[16]''" "BucketTransform 16"]
    by simp
qed

text \<open>
  Claim C4, as stated: every specifier other than \<open>identity\<close> and \<open>void\<close> that does not
  have the bracketed form \<open>bucket[...]\<close> or \<open>truncate[...]\<close> parses to an Unknown
  transform. The source tests \<open>v.startswith("bucket")\<close> and \<open>v.startswith("truncate")\<close>,
  without the bracket, so \<open>buckets\<close> goes to the bracket parser and raises.
\<close>

theorem validate_buckets_not_unknown:
  "''buckets'' \<noteq> IDENTITY \<and> ''buckets'' \<noteq> VOID
   \<and> \<not> startswith ''buckets'' (BUCKET @ ''['')
   \<and> \<not> startswith ''buckets'' (TRUNCATE @ ''['')
   \<and> validate ''buckets'' \<noteq> Inr (UnknownTransform ''buckets'')
   \<and> validate ''buckets'' = Inl ParseError"
  by (simp add: validate_def IDENTITY_def VOID_def BUCKET_def TRUNCATE_def startswith_def
      BUCKET_PARSER_def ParseNumberFromBrackets_match_def)

text \<open>
  Claim C4, amended: every specifier that is not \<open>identity\<close>, is not \<open>void\<close> and starts
  with neither \<open>bucket\<close> nor \<open>truncate\<close> parses, without an error, to the Unknown
  transform that keeps the specifier as it was given.
\<close>

theorem validate_unknown:
  assumes "v \<noteq> IDENTITY" and "v \<noteq> VOID"
    and "\<not> startswith v BUCKET" and "\<not> startswith v TRUNCATE"
  shows "validate v = Inr (UnknownTransform v)"
  using assms by (simp add: validate_def UnknownTransform_init_def)

theorem validate_unknown_witness:
  "''frobnicate'' \<noteq> IDENTITY \<and> ''frobnicate'' \<noteq> VOID
   \<and> \<not> startswith ''frobnicate'' BUCKET \<and> \<not> startswith ''frobnicate'' TRUNCATE
   \<and> validate ''frobnicate'' = Inr (UnknownTransform ''frobnicate'')"
proof -
  have a: "''frobnicate'' \<noteq> IDENTITY" by (simp add: IDENTITY_def)
  have b: "''frobnicate'' \<noteq> VOID" by (simp add: VOID_def)
  have c: "\<not> startswith ''frobnicate'' BUCKET" by (simp add: startswith_def BUCKET_def)
  have d: "\<not> startswith ''frobnicate'' TRUNCATE" by (simp add: startswith_def TRUNCATE_def)
  show ?thesis
    using a b c d validate_unknown [OF a b c d] by simp
qed

subsection \<open>Mapping values\<close>

lemma bucket_transform_Inr:
  assumes "BucketTransform_transform n source True = Inr f"
  shows "\<exists>h. f = bucket_lambda n h"
  using assms by (auto simp: BucketTransform_transform_def split: option.splits)

lemma truncate_transform_Inr:
  assumes "TruncateTransform_transform w source = Inr f"
  shows "\<exists>g. TruncateTransform_truncate_func w source = Some g \<and> f = truncate_lambda g"
  using assms by (auto simp: TruncateTransform_transform_def split: option.splits)

text \<open>For a positive \<open>w\<close>, \<open>i - i mod w\<close> is the largest multiple of \<open>w\<close> up to \<open>i\<close>.\<close>

lemma largest_multiple:
  fixes w i :: int
  assumes "0 < w"
  shows "w dvd (i - i mod w) \<and> i - i mod w \<le> i
    \<and> (\<forall>m. w dvd m \<and> m \<le> i \<longrightarrow> m \<le> i - i mod w)"
proof -
  have e: "i - i mod w = w * (i div w)"
    by (simp add: minus_mod_eq_mult_div)
  have "m \<le> w * (i div w)" if d: "w dvd m" and le: "m \<le> i" for m
  proof -
    from d obtain k where k: "m = w * k" by (auto simp: dvd_def)
    have "m div w \<le> i div w"
      using le assms by (rule zdiv_mono1)
    then have "k \<le> i div w"
      using k assms by simp
    then show ?thesis using k assms by simp
  qed
  moreover have "0 \<le> i mod w" using assms by simp
  ultimately show ?thesis using e by auto
qed

text \<open>
  Claim C5: the mapping functions of Bucket and Truncate send an absent input to null, and,
  the test being one of truthiness, send every falsy input (the integer 0, the empty string,
  the empty byte sequence) to null as well, whatever the source type they were made for.
\<close>

theorem falsy_input_maps_to_null:
  assumes "t = BucketTransform n \<or> t = TruncateTransform w st"
    and "transform t source = Inr f"
  shows "f NoneV = Inr NoneV \<and> f (IntV 0) = Inr NoneV \<and> f (StrV []) = Inr NoneV
    \<and> f (BytesV []) = Inr NoneV \<and> (\<forall>v. \<not> truthy v \<longrightarrow> f v = Inr NoneV)"
proof -
  have "(\<exists>h. f = bucket_lambda n h) \<or> (\<exists>g. f = truncate_lambda g)"
    using assms bucket_transform_Inr truncate_transform_Inr by fastforce
  then show ?thesis
    by (auto simp: bucket_lambda_def truncate_lambda_def)
qed

theorem falsy_input_maps_to_null_witness:
  "\<exists>f g. transform (BucketTransform 16) LongType = Inr f
     \<and> transform (TruncateTransform 5 None) StringType = Inr g
     \<and> f NoneV = Inr NoneV \<and> f (IntV 0) = Inr NoneV
     \<and> g NoneV = Inr NoneV \<and> g (StrV []) = Inr NoneV
     \<and> \<not> truthy (BytesV []) \<and> g (BytesV []) = Inr NoneV"
proof -
  have a: "transform (BucketTransform 16) LongType = Inr (bucket_lambda 16 hash_func_int)"
    by (simp add: BucketTransform_transform_def)
  have b: "transform (TruncateTransform 5 None) StringType
             = Inr (truncate_lambda (truncate_func_seq 5))"
    by (simp add: TruncateTransform_transform_def)
  show ?thesis
    using a b
      falsy_input_maps_to_null [of "BucketTransform 16" 16 5 None LongType, OF _ a]
      falsy_input_maps_to_null [of "TruncateTransform 5 None" 16 5 None StringType, OF _ b]
    by simp
qed

text \<open>
  Claim C6: for a Truncate transform of positive width \<open>w\<close>, every input \<open>v\<close> that the
  mapping function sends to a result \<open>r\<close> other than null is, for the source types integer
  and long, an integer \<open>i\<close> with \<open>r = i - i mod w\<close>, the largest multiple of \<open>w\<close> not
  above \<open>i\<close>; for the source types string and binary it is a string or a byte sequence, and
  \<open>r\<close> is its first \<open>min w (length v)\<close> elements.
\<close>

theorem truncate_result:
  assumes "0 < w" and "transform (TruncateTransform w st) source = Inr f"
    and "f v = Inr r" and "r \<noteq> NoneV"
  shows "(source = IntegerType \<or> source = LongType \<longrightarrow>
           (\<exists>i. v = IntV i \<and> r = IntV (i - i mod w) \<and> w dvd (i - i mod w) \<and> i - i mod w \<le> i
              \<and> (\<forall>m. w dvd m \<and> m \<le> i \<longrightarrow> m \<le> i - i mod w)))
       \<and> (source = StringType \<or> source = BinaryType \<longrightarrow>
           (\<exists>s. v = StrV s \<and> r = StrV (take (min (nat w) (length s)) s))
           \<or> (\<exists>b. v = BytesV b \<and> r = BytesV (take (min (nat w) (length b)) b)))"
proof -
  obtain g where g: "TruncateTransform_truncate_func w source = Some g" "f = truncate_lambda g"
    using truncate_transform_Inr [of w source f] assms(2) by auto
  have tv: "truthy v" "g v = Inr r"
    using assms(3,4) g(2) by (auto simp: truncate_lambda_def split: if_splits)
  have A: "\<exists>i. v = IntV i \<and> r = IntV (i - i mod w) \<and> w dvd (i - i mod w) \<and> i - i mod w \<le> i
              \<and> (\<forall>m. w dvd m \<and> m \<le> i \<longrightarrow> m \<le> i - i mod w)"
    if "source = IntegerType \<or> source = LongType"
  proof -
    have "g = truncate_func_int w" using that g(1) by auto
    then obtain i where "v = IntV i" "r = IntV (i - i mod w)"
      using tv(2) assms(1) by (auto simp: truncate_func_int_def split: val.splits)
    then show ?thesis using largest_multiple [OF assms(1), of i] by blast
  qed
  have B: "(\<exists>s. v = StrV s \<and> r = StrV (take (min (nat w) (length s)) s))
           \<or> (\<exists>b. v = BytesV b \<and> r = BytesV (take (min (nat w) (length b)) b))"
    if "source = StringType \<or> source = BinaryType"
  proof -
    have "g = truncate_func_seq w" using that g(1) by auto
    moreover have "nat (min w (int k)) = min (nat w) k" for k
      using assms(1) by auto
    ultimately show ?thesis
      using tv(2) assms(1) by (auto simp: truncate_func_seq_def slice_to_def split: val.splits)
  qed
  show ?thesis using A B by blast
qed

theorem truncate_result_witness:
  "(0::int) < 5
   \<and> transform (TruncateTransform 5 None) LongType = Inr (truncate_lambda (truncate_func_int 5))
   \<and> truncate_lambda (truncate_func_int 5) (IntV 12) = Inr (IntV 10)
   \<and> IntV 10 \<noteq> NoneV
   \<and> (5::int) dvd 10 \<and> (10::int) \<le> 12
   \<and> transform (TruncateTransform 5 None) StringType = Inr (truncate_lambda (truncate_func_seq 5))
   \<and> truncate_lambda (truncate_func_seq 5) (StrV ''abcdefg'') = Inr (StrV ''abcde'')
   \<and> StrV ''abcde'' \<noteq> NoneV"
proof -
  have p: "(0::int) < 5" by simp
  have a: "transform (TruncateTransform 5 None) LongType
             = Inr (truncate_lambda (truncate_func_int 5))"
    by (simp add: TruncateTransform_transform_def)
  have b: "truncate_lambda (truncate_func_int 5) (IntV 12) = Inr (IntV 10)"
    by (simp add: truncate_lambda_def truncate_func_int_def)
  have c: "transform (TruncateTransform 5 None) StringType
             = Inr (truncate_lambda (truncate_func_seq 5))"
    by (simp add: TruncateTransform_transform_def)
  have d: "truncate_lambda (truncate_func_seq 5) (StrV ''abcdefg'') = Inr (StrV ''abcde'')"
    by (simp add: truncate_lambda_def truncate_func_seq_def slice_to_def)
  show ?thesis
    using p a b c d truncate_result [OF p a b] truncate_result [OF p c d]
    by simp
qed

subsection \<open>Order\<close>

text \<open>
  With \<open>_source_type\<close> assigned on both sides, \<open>satisfies_order_of\<close> returns what section
  4.4 describes; on a transform as its constructor leaves it, and another that is not equal
  to it, the attribute is read before it was ever assigned.
\<close>

lemma satisfies_order_of_bound:
  "satisfies_order_of (TruncateTransform w (Some s)) (TruncateTransform w' (Some s')) =
     Inr (eq_Transform (TruncateTransform w (Some s)) (TruncateTransform w' (Some s'))
          \<or> (s = StringType \<and> s' = StringType \<and> w' \<le> w))"
  by (simp add: TruncateTransform_satisfies_order_of_def)

lemma satisfies_order_of_unbound:
  assumes "\<not> eq_Transform (TruncateTransform w None) other"
  shows "satisfies_order_of (TruncateTransform_init w) other = Inl AttributeError"
  using assms by (simp add: TruncateTransform_init_def TruncateTransform_satisfies_order_of_def)

text \<open>
  Claim C7: \<open>Truncate.satisfies_order_of(other)\<close> is true for equal transforms, otherwise
  true exactly when both are Truncate transforms over a string source type and the width of
  \<open>self\<close> is at least the width of \<open>other\<close>, and it never fails. The source does
  otherwise: no method of the module assigns \<open>_source_type\<close>, so
  \<open>TruncateTransform(5).satisfies_order_of(TruncateTransform(2))\<close> raises where the claim
  gives true.
\<close>

theorem satisfies_order_of_truncate_5_2_fails:
  "satisfies_order_of (TruncateTransform_init 5) (TruncateTransform_init 2) = Inl AttributeError"
proof -
  have "str_int 5 = ''5''" "str_int 2 = ''2''"
    by code_simp+
  then show ?thesis
    by (simp add: TruncateTransform_init_def TruncateTransform_satisfies_order_of_def
        eq_Transform_def)
qed

subsection \<open>Unsupported source types\<close>

text \<open>
  Claim C8: \<open>transform\<close> of an Unknown transform fails for every source type, \<open>transform\<close>
  of a Bucket or Truncate transform fails for every source type that \<open>can_transform\<close>
  rejects, and \<open>can_transform\<close> of an Unknown transform is false for every source type.
  The failure that the specification calls UnsupportedTransformError is the
  \<open>AttributeError\<close> raised by \<open>UnknownTransform.transform\<close> and the \<open>ValueError\<close> raised
  by the final \<open>else\<close> of the two other methods.
\<close>

theorem unsupported_source_fails:
  "transform (UnknownTransform t) source = Inl AttributeError
   \<and> \<not> can_transform (UnknownTransform t) source
   \<and> (\<not> can_transform (BucketTransform n) source \<longrightarrow>
        transform (BucketTransform n) source = Inl ValueError
        \<and> BucketTransform_transform n source bucket = Inl ValueError)
   \<and> (\<not> can_transform (TruncateTransform w st) source \<longrightarrow>
        transform (TruncateTransform w st) source = Inl ValueError)"
  by (cases source) (simp_all add: BucketTransform_transform_def TruncateTransform_transform_def)

theorem unsupported_source_fails_witness:
  "\<not> can_transform (BucketTransform 16) BooleanType
   \<and> transform (BucketTransform 16) BooleanType = Inl ValueError
   \<and> \<not> can_transform (TruncateTransform 8 None) UUIDType
   \<and> transform (TruncateTransform 8 None) UUIDType = Inl ValueError
   \<and> transform (UnknownTransform ''frobnicate'') StringType = Inl AttributeError"
  using unsupported_source_fails [of "''frobnicate''" StringType 16 True 8 None]
    unsupported_source_fails [of "''frobnicate''" BooleanType 16 True 8 None]
    unsupported_source_fails [of "''frobnicate''" UUIDType 16 True 8 None]
  by simp

text \<open>Conversely, a source type that \<open>can_transform\<close> accepts gives a function.\<close>

lemma supported_source_succeeds:
  "(can_transform (BucketTransform n) source \<longrightarrow>
      (\<exists>f. transform (BucketTransform n) source = Inr f))
   \<and> (can_transform (TruncateTransform w st) source \<longrightarrow>
      (\<exists>f. transform (TruncateTransform w st) source = Inr f))"
  by (cases source) (simp_all add: BucketTransform_transform_def TruncateTransform_transform_def)

subsection \<open>Identity and equality\<close>

text \<open>
  Claim C9: the mapping function of the Identity transform returns its input unchanged for
  every input, null included, for every source type, and the result type of the transform is
  the source type.
\<close>

theorem identity_transform_is_identity:
  "(\<exists>f. transform IdentityTransform source = Inr f \<and> (\<forall>v. f v = Inr v) \<and> f NoneV = Inr NoneV)
   \<and> result_type IdentityTransform source = source"
  by simp

lemma str_Transform_root: "str_Transform t = root t"
  by (cases t) simp_all

text \<open>
  Claim C10: two transforms are equal if and only if their canonical specifier strings are
  equal; the canonical string of every Unknown transform is \<open>unknown\<close>, so any two Unknown
  transforms are equal, whatever raw specifiers they keep.
\<close>

theorem eq_iff_canonical_string:
  "(eq_Transform a b \<longleftrightarrow> str_Transform a = str_Transform b)
   \<and> str_Transform (UnknownTransform r) = ''unknown''
   \<and> eq_Transform (UnknownTransform r1) (UnknownTransform r2)"
  by (simp add: eq_Transform_def str_Transform_root)

end
